theory Spec2Isabelle
  imports Complex_Main
begin

section \<open>Tensors, errors and computations\<close>

text \<open>
  The slide encoder of \<^verbatim>\<open>src/gigapath/slide_encoder.py\<close> works on torch tensors.
  A tensor of shape \<open>[N, L, D]\<close> is a list of \<open>N\<close> sequences of \<open>L\<close> vectors of
  \<open>D\<close> numbers; a mask of shape \<open>[N, L]\<close> is a list of \<open>N\<close> rows. Numbers are
  exact reals: rounding of the machine formats is not part of the model, and the cast to
  bfloat16 is a parameter. A nested list with an empty axis carries no size for the axes
  below it.
\<close>

type_synonym vec = "real list"
type_synonym seq = "vec list"
type_synonym batch = "seq list"
type_synonym mask = "int list list"
type_synonym padding_mask = "bool list list"

text \<open>
  The exceptions of the forward pass: torch raises \<open>IndexError\<close> for an index outside a
  table and \<open>RuntimeError\<close> for shapes that do not fit; Python raises \<open>TypeError\<close> when
  a tuple stands where a tensor is used.
\<close>

datatype error = IndexError | RuntimeError | TypeError

text \<open>
  A computation reads and advances the state \<open>'g\<close> of the random generator (dropout and
  stochastic depth draw from it in training mode) and either raises or returns.
\<close>

type_synonym ('g, 'a) run = "'g \<Rightarrow> (error + 'a) \<times> 'g"

definition ret :: "'a \<Rightarrow> ('g, 'a) run" where
  "ret x g = (Inr x, g)"

definition lift :: "error + 'a \<Rightarrow> ('g, 'a) run" where
  "lift r g = (r, g)"

definition and_then :: "('g, 'a) run \<Rightarrow> ('a \<Rightarrow> ('g, 'b) run) \<Rightarrow> ('g, 'b) run" where
  "and_then m f g = (case m g of (Inl e, g') \<Rightarrow> (Inl e, g') | (Inr x, g') \<Rightarrow> f x g')"

definition shape :: "batch \<Rightarrow> nat list list" where
  "shape t = map (map length) t"

text \<open>\<open>t.shape[1]\<close> of a tensor \<open>[N, L, D]\<close> or \<open>[N, L]\<close>.\<close>

definition dim1 :: "'a list list \<Rightarrow> nat" where
  "dim1 t = (case t of [] \<Rightarrow> 0 | s # _ \<Rightarrow> length s)"


text \<open>
  \<open>a + b\<close> on two tensors of one shape. (torch also stretches an axis of size 1 of one
  operand to the size of the other; the model raises there.)
\<close>

definition tensor_add :: "batch \<Rightarrow> batch \<Rightarrow> error + batch" where
  "tensor_add a b =
     (if shape a = shape b then Inr (map2 (map2 (map2 (+))) a b) else Inl RuntimeError)"

text \<open>\<open>torch.cat((a, b), dim=1)\<close> on \<open>[N, Q, D]\<close> and \<open>[N, I, D]\<close>.\<close>

definition cat_dim1 :: "batch \<Rightarrow> batch \<Rightarrow> error + batch" where
  "cat_dim1 a b =
     (if length a = length b
         \<and> list_all (\<lambda>u. list_all (\<lambda>v. length u = length v) (concat b)) (concat a)
      then Inr (map2 (@) a b) else Inl RuntimeError)"

text \<open>\<open>torch.cat((a, b), dim=-1)\<close> on \<open>[N, Q]\<close> and \<open>[N, I]\<close>.\<close>

definition cat_last :: "mask \<Rightarrow> mask \<Rightarrow> error + mask" where
  "cat_last a b = (if length a = length b then Inr (map2 (@) a b) else Inl RuntimeError)"

text \<open>The first error of a list of results, or all the values.\<close>

fun collect :: "(error + 'a) list \<Rightarrow> error + 'a list" where
  "collect [] = Inr []"
| "collect (r # rs) =
     (case r of
        Inl e \<Rightarrow> Inl e
      | Inr x \<Rightarrow> (case collect rs of Inl e \<Rightarrow> Inl e | Inr xs \<Rightarrow> Inr (x # xs)))"

text \<open>
  One row of a table by an integer index, as torch indexes with a tensor of indices: an
  index \<open>i\<close> with \<open>-n \<le> i < 0\<close> counts from the end of the \<open>n\<close> rows, and an index
  outside \<open>[-n, n)\<close> raises.
\<close>

definition index_row :: "seq \<Rightarrow> int \<Rightarrow> error + vec" where
  "index_row table i =
     (if - int (length table) \<le> i \<and> i < int (length table)
      then Inr (table ! nat (i mod int (length table)))
      else Inl IndexError)"

text \<open>\<open>pos_embed[:, pos, :].squeeze(0)\<close>: for \<open>pos\<close> of shape \<open>[N, L]\<close>, the rows \<open>[N, L, D]\<close>.\<close>

definition gather :: "seq \<Rightarrow> int list list \<Rightarrow> error + batch" where
  "gather table pos = collect (map (\<lambda>row. collect (map (index_row table) row)) pos)"

section \<open>The Position Indexer\<close>

text \<open>
  \<open>LongNetViT.coords_to_pos\<close>: \<open>coords\<close> has shape \<open>[N, L, 2]\<close>, a pair per tile.
  \<open>torch.floor(coords / patch_size)\<close> is the floor of the exact quotient; \<open>pos.long()\<close> of
  the integral value is that integer. For \<open>patch_size = 0\<close> torch computes with
  infinities and NaN, which the model does not have: the theorems are about
  \<open>patch_size \<noteq> 0\<close>.
\<close>

definition coords_to_pos :: "nat \<Rightarrow> (real \<times> real) list list \<Rightarrow> real \<Rightarrow> int list list" where
  "coords_to_pos slide_ngrids coords patch_size =
     map (map (\<lambda>(x, y). \<lfloor>x / patch_size\<rfloor> * int slide_ngrids + \<lfloor>y / patch_size\<rfloor>)) coords"

section \<open>Modules\<close>

text \<open>
  A torch module is its hyperparameters and its weights; the weights are of an abstract
  type \<open>'w\<close>. The records follow the constructors of the source and of the library
  modules they build.
\<close>

text \<open>\<open>nn.MultiheadAttention(embed_dim, num_heads, dropout=dropout, batch_first=True)\<close>.\<close>

record 'w MultiheadAttention =
  mha_embed_dim :: nat
  mha_num_heads :: nat
  mha_dropout :: real
  mha_weights :: 'w

text \<open>\<open>nn.LayerNorm(dim)\<close>.\<close>

record 'w LayerNorm =
  ln_normalized_shape :: nat
  ln_weights :: 'w

text \<open>timm's \<open>Mlp(in_features=dim, hidden_features=ff_dim, drop=dropout)\<close>.\<close>

record 'w Mlp =
  mlp_in_features :: nat
  mlp_hidden_features :: nat
  mlp_drop :: real
  mlp_weights :: 'w

text \<open>\<open>DropPath(drop_path) if drop_path > 0 else nn.Identity()\<close>.\<close>

datatype drop_path_module = DropPath real | Identity

record LayerScale =
  ls_inplace :: bool
  ls_gamma :: vec

record 'w CrossAttention =
  ca_attn :: "'w MultiheadAttention"
  ca_norm :: "'w LayerNorm"
  ca_dropout :: real

record 'w TransformerBlock =
  tb_pre_norm :: bool
  tb_attention :: "'w MultiheadAttention"
  tb_norm1 :: "'w LayerNorm"
  tb_layerscale1 :: LayerScale
  tb_drop_path1 :: drop_path_module
  tb_ffn :: "'w Mlp"
  tb_norm2 :: "'w LayerNorm"
  tb_layerscale2 :: LayerScale
  tb_drop_path2 :: drop_path_module

text \<open>
  The name \<open>"LongNet_{depth}_layers_{embed_dim}_dim"\<close>, with the suffix
  \<open>"_mlp{mlp_ratio}"\<close> when one is given, as its parts.
\<close>

datatype encoder_name = LongNet_layers_dim nat nat "real option"

text \<open>
  What \<open>make_longnet_from_name(name, drop_path_rate=..., dropout=..., segment_length=...)\<close>
  is called with, and the weights of the encoder it builds.
\<close>

record 'w LongNet =
  enc_name :: encoder_name
  enc_drop_path_rate :: real
  enc_dropout :: real
  enc_segment_length :: string
  enc_weights :: 'w

text \<open>
  \<open>LongNetViT\<close>: the attributes \<open>__init__\<close> sets, the last axis of the buffer
  \<open>pos_embed\<close> of shape \<open>[1, num_patches, embed_dim]\<close> (its leading axis of size 1 is
  left out), and the mode flag \<open>training\<close> of \<open>nn.Module\<close>, which \<open>train()\<close> and
  \<open>eval()\<close> set on the module and all its submodules.
\<close>

record 'w LongNetViT =
  slide_ngrids :: nat
  pos_embed :: seq
  pos_embed_dim :: nat
  num_layers :: nat
  encoder_name :: encoder_name
  encoder_wsi :: "'w LongNet list"
  self_attention :: "'w TransformerBlock list"
  cross_attention :: "'w CrossAttention list"
  training :: bool

section \<open>The library\<close>

text \<open>
  The operations of torch, timm and torchscale and of \<^verbatim>\<open>pos_embed.py\<close>, none of them
  under \<^verbatim>\<open>src/\<close>, are parameters of the model. An operation that draws random numbers
  in training mode is a computation over the generator; the module's mode is its
  \<open>bool\<close> argument.
  \<^item> \<open>multihead_attention m training query key value key_padding_mask\<close> is
    \<open>nn.MultiheadAttention.forward\<close>: the attention output and the attention weights.
    In \<open>key_padding_mask\<close>, \<open>True\<close> marks a key that attention ignores.
  \<^item> \<open>layer_norm\<close> is \<open>nn.LayerNorm.forward\<close>, \<open>mlp\<close> is timm's \<open>Mlp.forward\<close>.
  \<^item> \<open>dropout_sample p x\<close> is \<open>F.dropout(x, p, training=True)\<close>, and
    \<open>drop_path_sample p x\<close> is timm's \<open>drop_path(x, p, training=True)\<close>.
  \<^item> \<open>longnet e training token_embeddings encoder_padding_mask\<close> is the entry
    \<open>"encoder_out"\<close> of what the LongNet encoder returns.
  \<^item> \<open>to_bfloat16\<close> rounds one number to bfloat16.
  \<^item> \<open>get_2d_sincos_pos_embed embed_dim grid_size\<close> is the table of \<^verbatim>\<open>pos_embed.py\<close>.
\<close>

record ('w, 'g) library =
  multihead_attention ::
    "'w MultiheadAttention \<Rightarrow> bool \<Rightarrow> batch \<Rightarrow> batch \<Rightarrow> batch \<Rightarrow> padding_mask option
       \<Rightarrow> ('g, batch \<times> batch) run"
  layer_norm :: "'w LayerNorm \<Rightarrow> batch \<Rightarrow> error + batch"
  mlp :: "'w Mlp \<Rightarrow> bool \<Rightarrow> batch \<Rightarrow> ('g, batch) run"
  dropout_sample :: "real \<Rightarrow> batch \<Rightarrow> 'g \<Rightarrow> batch \<times> 'g"
  drop_path_sample :: "real \<Rightarrow> batch \<Rightarrow> 'g \<Rightarrow> batch \<times> 'g"
  longnet :: "'w LongNet \<Rightarrow> bool \<Rightarrow> batch \<Rightarrow> padding_mask option \<Rightarrow> ('g, batch) run"
  to_bfloat16 :: "real \<Rightarrow> real"
  get_2d_sincos_pos_embed :: "nat \<Rightarrow> nat \<Rightarrow> seq"

text \<open>
  \<open>nn.Dropout(p).forward\<close>: \<open>F.dropout(x, p, self.training)\<close> returns its input when
  the module is not in training mode.
\<close>

definition Dropout_forward :: "('w, 'g) library \<Rightarrow> real \<Rightarrow> bool \<Rightarrow> batch \<Rightarrow> ('g, batch) run" where
  "Dropout_forward lib p train x g =
     (if train then (case dropout_sample lib p x g of (y, g') \<Rightarrow> (Inr y, g')) else (Inr x, g))"

text \<open>
  timm's \<open>DropPath.forward\<close>: \<open>drop_path\<close> returns its input when the probability is 0
  or the module is not in training mode; \<open>nn.Identity\<close> returns its input.
\<close>

definition drop_path_forward ::
  "('w, 'g) library \<Rightarrow> drop_path_module \<Rightarrow> bool \<Rightarrow> batch \<Rightarrow> ('g, batch) run" where
  "drop_path_forward lib dp train x g =
     (case dp of
        Identity \<Rightarrow> (Inr x, g)
      | DropPath p \<Rightarrow>
          (if p = 0 \<or> \<not> train then (Inr x, g)
           else (case drop_path_sample lib p x g of (y, g') \<Rightarrow> (Inr y, g'))))"

section \<open>The blocks\<close>

text \<open>
  \<open>x * gamma\<close> for \<open>x\<close> of shape \<open>[N, L, D]\<close> and \<open>gamma\<close> of shape \<open>[D]\<close>: each
  vector of \<open>x\<close> times \<open>gamma\<close>, entry by entry.
\<close>

definition mul_gamma :: "batch \<Rightarrow> vec \<Rightarrow> error + batch" where
  "mul_gamma x gamma =
     (if list_all (list_all (\<lambda>v. length v = length gamma)) x
      then Inr (map (map (\<lambda>v. map2 (*) v gamma)) x) else Inl RuntimeError)"

text \<open>
  \<open>LayerScale.forward\<close>: \<open>x.mul_(self.gamma) if self.inplace else x * self.gamma\<close>. Both
  branches return the product; the first also overwrites its argument, a tensor that the
  callers do not read again.
\<close>

definition LayerScale_forward :: "LayerScale \<Rightarrow> batch \<Rightarrow> error + batch" where
  "LayerScale_forward ls x = (if ls_inplace ls then mul_gamma x (ls_gamma ls) else mul_gamma x (ls_gamma ls))"

text \<open>
  What \<open>CrossAttention.forward\<close> returns: \<open>output\<close>, or the tuple
  \<open>(output, attn_weights)\<close> when \<open>return_weights\<close> is set.
\<close>

datatype cross_attention_result = Output batch | OutputWeights batch batch

fun primary_output :: "cross_attention_result \<Rightarrow> batch" where
  "primary_output (Output out) = out"
| "primary_output (OutputWeights out w) = out"

definition CrossAttention_forward ::
  "('w, 'g) library \<Rightarrow> 'w CrossAttention \<Rightarrow> bool \<Rightarrow> batch \<Rightarrow> batch \<Rightarrow> batch
     \<Rightarrow> padding_mask option \<Rightarrow> bool \<Rightarrow> ('g, cross_attention_result) run" where
  "CrossAttention_forward lib self train query key value key_padding_mask return_weights =
     and_then (multihead_attention lib (ca_attn self) train query key value key_padding_mask)
       (\<lambda>(attn_output, attn_weights).
     and_then (Dropout_forward lib (ca_dropout self) train attn_output) (\<lambda>dropped.
     and_then (lift (tensor_add query dropped)) (\<lambda>residual.
     and_then (lift (layer_norm lib (ca_norm self) residual)) (\<lambda>output.
     if return_weights then ret (OutputWeights output attn_weights) else ret (Output output)))))"

text \<open>
  Line 72 of \<open>TransformerBlock.forward\<close>:
  \<open>attention_mask = (attention_mask == 0) if attention_mask is not None else None\<close>.
\<close>

definition attention_mask_eq_0 :: "mask option \<Rightarrow> padding_mask option" where
  "attention_mask_eq_0 attention_mask =
     (case attention_mask of None \<Rightarrow> None | Some m \<Rightarrow> Some (map (map (\<lambda>e. e = 0)) m))"

text \<open>
  Lines 74 to 89 of \<open>TransformerBlock.forward\<close>, with the mask of line 72 as
  \<open>key_padding_mask\<close>: the only use of the mask is as the \<open>key_padding_mask\<close> of
  \<open>self.attention\<close>.
\<close>

definition TransformerBlock_sublayers ::
  "('w, 'g) library \<Rightarrow> 'w TransformerBlock \<Rightarrow> bool \<Rightarrow> batch \<Rightarrow> padding_mask option
     \<Rightarrow> ('g, batch) run" where
  "TransformerBlock_sublayers lib self train x key_padding_mask =
     (if tb_pre_norm self then
        and_then (lift (layer_norm lib (tb_norm1 self) x)) (\<lambda>x_norm.
        and_then (multihead_attention lib (tb_attention self) train x_norm x_norm x_norm
                    key_padding_mask) (\<lambda>(attn_output, _).
        and_then (lift (LayerScale_forward (tb_layerscale1 self) attn_output)) (\<lambda>scaled.
        and_then (drop_path_forward lib (tb_drop_path1 self) train scaled) (\<lambda>kept.
        and_then (lift (tensor_add x kept)) (\<lambda>x.
        and_then (lift (layer_norm lib (tb_norm2 self) x)) (\<lambda>x_norm.
        and_then (mlp lib (tb_ffn self) train x_norm) (\<lambda>ffn_output.
        and_then (lift (LayerScale_forward (tb_layerscale2 self) ffn_output)) (\<lambda>scaled.
        and_then (drop_path_forward lib (tb_drop_path2 self) train scaled) (\<lambda>kept.
        lift (tensor_add x kept))))))))))
      else
        and_then (multihead_attention lib (tb_attention self) train x x x key_padding_mask)
          (\<lambda>(attn_output, _).
        and_then (lift (layer_norm lib (tb_norm1 self) attn_output)) (\<lambda>normed.
        and_then (lift (LayerScale_forward (tb_layerscale1 self) normed)) (\<lambda>scaled.
        and_then (drop_path_forward lib (tb_drop_path1 self) train scaled) (\<lambda>kept.
        and_then (lift (tensor_add x kept)) (\<lambda>x.
        and_then (mlp lib (tb_ffn self) train x) (\<lambda>ffn_output.
        and_then (lift (layer_norm lib (tb_norm2 self) ffn_output)) (\<lambda>normed.
        and_then (lift (LayerScale_forward (tb_layerscale2 self) normed)) (\<lambda>scaled.
        and_then (drop_path_forward lib (tb_drop_path2 self) train scaled) (\<lambda>kept.
        lift (tensor_add x kept)))))))))))"

definition TransformerBlock_forward ::
  "('w, 'g) library \<Rightarrow> 'w TransformerBlock \<Rightarrow> bool \<Rightarrow> batch \<Rightarrow> mask option \<Rightarrow> ('g, batch) run" where
  "TransformerBlock_forward lib self train x attention_mask =
     TransformerBlock_sublayers lib self train x (attention_mask_eq_0 attention_mask)"

section \<open>Construction\<close>

text \<open>
  The constructors of the source. An argument with a default in the Python signature is
  an \<open>option\<close> here, \<open>None\<close> for an argument the call leaves out. The weights a
  constructor draws, and those \<open>self.apply(self._init_weights)\<close> writes into the linear
  layers and the layer norms, are the parameter \<open>w\<close>; the checks the library constructors
  make on their arguments are not modelled.
\<close>

definition LayerScale_init :: "nat \<Rightarrow> real option \<Rightarrow> bool option \<Rightarrow> LayerScale" where
  "LayerScale_init dim' init_values inplace =
     \<lparr>ls_inplace = (case inplace of None \<Rightarrow> False | Some b \<Rightarrow> b),
      ls_gamma = map (\<lambda>one. (case init_values of None \<Rightarrow> 1 / 100000 | Some v \<Rightarrow> v) * one)
                   (replicate dim' 1)\<rparr>"

definition CrossAttention_init :: "'w \<Rightarrow> nat \<Rightarrow> nat \<Rightarrow> real option \<Rightarrow> 'w CrossAttention" where
  "CrossAttention_init w embed_dim num_heads dropout =
     (let dropout = (case dropout of None \<Rightarrow> 1 / 10 | Some d \<Rightarrow> d) in
      \<lparr>ca_attn = \<lparr>mha_embed_dim = embed_dim, mha_num_heads = num_heads,
                  mha_dropout = dropout, mha_weights = w\<rparr>,
       ca_norm = \<lparr>ln_normalized_shape = embed_dim, ln_weights = w\<rparr>,
       ca_dropout = dropout\<rparr>)"

definition TransformerBlock_init ::
  "'w \<Rightarrow> nat \<Rightarrow> nat \<Rightarrow> nat \<Rightarrow> real option \<Rightarrow> real option \<Rightarrow> real option \<Rightarrow> bool option
     \<Rightarrow> 'w TransformerBlock" where
  "TransformerBlock_init w dim' num_heads ff_dim init_values dropout drop_path pre_norm =
     (let dropout = (case dropout of None \<Rightarrow> 1 / 10 | Some d \<Rightarrow> d);
          drop_path = (case drop_path of None \<Rightarrow> 1 / 10 | Some d \<Rightarrow> d);
          init_values = (case init_values of None \<Rightarrow> 1 / 100000 | Some v \<Rightarrow> v) in
      \<lparr>tb_pre_norm = (case pre_norm of None \<Rightarrow> True | Some b \<Rightarrow> b),
       tb_attention = \<lparr>mha_embed_dim = dim', mha_num_heads = num_heads,
                       mha_dropout = dropout, mha_weights = w\<rparr>,
       tb_norm1 = \<lparr>ln_normalized_shape = dim', ln_weights = w\<rparr>,
       tb_layerscale1 = LayerScale_init dim' (Some init_values) None,
       tb_drop_path1 = (if drop_path > 0 then DropPath drop_path else Identity),
       tb_ffn = \<lparr>mlp_in_features = dim', mlp_hidden_features = ff_dim,
                 mlp_drop = dropout, mlp_weights = w\<rparr>,
       tb_norm2 = \<lparr>ln_normalized_shape = dim', ln_weights = w\<rparr>,
       tb_layerscale2 = LayerScale_init dim' (Some init_values) None,
       tb_drop_path2 = (if drop_path > 0 then DropPath drop_path else Identity)\<rparr>)"

text \<open>
  The arguments of \<open>LongNetViT.__init__\<close>; \<open>arg_mlp_ratio\<close> is the entry
  \<open>"mlp_ratio"\<close> of \<open>kwargs\<close>. (\<open>norm_layer\<close> is not used by the constructor.)
  \<open>default_args\<close> holds the defaults of the signature.
\<close>

record LongNetViT_args =
  arg_in_chans :: nat
  arg_embed_dim :: nat
  arg_depth :: nat
  arg_slide_ngrids :: nat
  arg_tile_size :: nat
  arg_max_wsi_size :: nat
  arg_dropout :: real
  arg_drop_path_rate :: real
  arg_num_layers :: nat
  arg_num_heads :: nat
  arg_ff_dim :: nat
  arg_mlp_ratio :: "real option"

definition default_args :: LongNetViT_args where
  "default_args =
     \<lparr>arg_in_chans = 4096, arg_embed_dim = 512, arg_depth = 12, arg_slide_ngrids = 1000,
      arg_tile_size = 256, arg_max_wsi_size = 262144, arg_dropout = 1 / 4,
      arg_drop_path_rate = 1 / 10, arg_num_layers = 2, arg_num_heads = 8, arg_ff_dim = 2048,
      arg_mlp_ratio = None\<rparr>"

text \<open>
  \<open>dst.copy_(src)\<close> on tables of one shape. (torch also stretches an axis of size 1 of
  the source; the model raises there.)
\<close>

definition copy_into :: "seq \<Rightarrow> seq \<Rightarrow> error + seq" where
  "copy_into dst src = (if map length src = map length dst then Inr src else Inl RuntimeError)"

definition initialize_vit_weights ::
  "('w, 'g) library \<Rightarrow> 'w LongNetViT \<Rightarrow> error + 'w LongNetViT" where
  "initialize_vit_weights lib self =
     (let table = get_2d_sincos_pos_embed lib (pos_embed_dim self) (slide_ngrids self) in
      case copy_into (pos_embed self) table of
        Inl e \<Rightarrow> Inl e
      | Inr written \<Rightarrow> Inr (self\<lparr>pos_embed := written\<rparr>))"

definition LongNetViT_init ::
  "('w, 'g) library \<Rightarrow> (nat \<Rightarrow> 'w) \<Rightarrow> LongNetViT_args \<Rightarrow> error + 'w LongNetViT" where
  "LongNetViT_init lib w args =
     (let embed_dim = arg_embed_dim args;
          num_patches = (arg_slide_ngrids args)\<^sup>2;
          name = LongNet_layers_dim (arg_depth args) embed_dim
                   (if (case arg_mlp_ratio args of None \<Rightarrow> 4 | Some r \<Rightarrow> r) \<noteq> 4
                    then arg_mlp_ratio args else None);
          segment_length = ''[512, 1024, 2048, 4096, 8192]'' in
      initialize_vit_weights lib
        \<lparr>slide_ngrids = arg_slide_ngrids args,
         pos_embed = replicate num_patches (replicate embed_dim 0),
         pos_embed_dim = embed_dim,
         num_layers = arg_num_layers args,
         encoder_name = name,
         encoder_wsi =
           map (\<lambda>i. \<lparr>enc_name = name, enc_drop_path_rate = arg_drop_path_rate args,
                      enc_dropout = arg_dropout args, enc_segment_length = segment_length,
                      enc_weights = w i\<rparr>)
             [0..<arg_num_layers args],
         self_attention =
           map (\<lambda>i. TransformerBlock_init (w i) embed_dim (arg_num_heads args) (arg_ff_dim args)
                      None None None None)
             [0..<arg_num_layers args],
         cross_attention =
           map (\<lambda>i. CrossAttention_init (w i) embed_dim (arg_num_heads args) None)
             [0..<arg_num_layers args],
         training = True\<rparr>)"

text \<open>\<open>nn.Module.eval()\<close>: the module and its submodules leave training mode.\<close>

definition eval_mode :: "'w LongNetViT \<Rightarrow> 'w LongNetViT" where
  "eval_mode self = self\<lparr>training := False\<rparr>"

section \<open>The forward pass\<close>

text \<open>\<open>modules[i]\<close> on a \<open>nn.ModuleList\<close>.\<close>

definition module_at :: "'a list \<Rightarrow> nat \<Rightarrow> error + 'a" where
  "module_at modules i = (if i < length modules then Inr (modules ! i) else Inl IndexError)"

text \<open>
  Lines 245 to 248 of \<open>LongNetViT.forward\<close>: the mask for the self attention.
  \<open>torch.ones((querys.shape[0], querys.shape[1]))\<close> is a row of ones for each of the
  sequences of \<open>querys\<close>.
\<close>

definition extend_self_attention_mask :: "batch \<Rightarrow> mask option \<Rightarrow> error + mask option" where
  "extend_self_attention_mask querys self_attention_mask =
     (case self_attention_mask of
        None \<Rightarrow> Inr None
      | Some m \<Rightarrow>
          (let query_mask_extension = replicate (length querys) (replicate (dim1 querys) 1) in
           case cat_last query_mask_extension m of
             Inl e \<Rightarrow> Inl e
           | Inr extended \<Rightarrow> Inr (Some extended)))"

text \<open>
  Lines 259 to 266, the body of the loop over the layers, on the pair
  \<open>(contexts, querys)\<close> that the loop updates.
\<close>

definition forward_layer ::
  "('w, 'g) library \<Rightarrow> 'w LongNetViT \<Rightarrow> batch \<Rightarrow> nat \<Rightarrow> mask option \<Rightarrow> padding_mask option
     \<Rightarrow> nat \<Rightarrow> batch \<times> batch \<Rightarrow> ('g, batch \<times> batch) run" where
  "forward_layer lib self instructs query_length self_attention_mask key_padding_mask i =
     (\<lambda>(contexts, querys).
        and_then (lift (module_at (encoder_wsi self) i)) (\<lambda>encoder.
        and_then (longnet lib encoder (training self) contexts key_padding_mask) (\<lambda>contexts.
        and_then (lift (cat_dim1 querys instructs)) (\<lambda>combined_querys.
        and_then (lift (module_at (self_attention self) i)) (\<lambda>block.
        and_then (TransformerBlock_forward lib block (training self) combined_querys
                    self_attention_mask) (\<lambda>self_attn_output.
        and_then (lift (module_at (cross_attention self) i)) (\<lambda>cross.
        and_then (CrossAttention_forward lib cross (training self)
                    (map (take query_length) self_attn_output) contexts contexts
                    key_padding_mask False) (\<lambda>r.
        case r of
          Output querys \<Rightarrow> ret (contexts, querys)
        | OutputWeights _ _ \<Rightarrow> lift (Inl TypeError)))))))))"

text \<open>\<open>for i in range(self.num_layers)\<close>, over the list of the indices.\<close>

fun forward_layers ::
  "('w, 'g) library \<Rightarrow> 'w LongNetViT \<Rightarrow> batch \<Rightarrow> nat \<Rightarrow> mask option \<Rightarrow> padding_mask option
     \<Rightarrow> nat list \<Rightarrow> batch \<times> batch \<Rightarrow> ('g, batch \<times> batch) run" where
  "forward_layers lib self instructs query_length self_attention_mask key_padding_mask [] s g =
     (Inr s, g)"
| "forward_layers lib self instructs query_length self_attention_mask key_padding_mask (i # is) s g =
     (case forward_layer lib self instructs query_length self_attention_mask key_padding_mask i s g of
        (Inl e, g') \<Rightarrow> (Inl e, g')
      | (Inr s', g') \<Rightarrow>
          forward_layers lib self instructs query_length self_attention_mask key_padding_mask
            is s' g')"

text \<open>\<open>querys.to(torch.bfloat16)\<close>.\<close>

definition cast_bfloat16 :: "('w, 'g) library \<Rightarrow> batch \<Rightarrow> batch" where
  "cast_bfloat16 lib t = map (map (map (to_bfloat16 lib))) t"

text \<open>
  Lines 250 to 268 of \<open>LongNetViT.forward\<close>, which follow the extension of the mask:
  the position rows are gathered and added to the tile embeddings, the layers run, and the
  last \<open>querys\<close> is cast. \<open>query_length\<close> is \<open>querys.shape[1]\<close> of line 243.
\<close>

definition forward_fusion ::
  "('w, 'g) library \<Rightarrow> 'w LongNetViT \<Rightarrow> batch \<Rightarrow> batch \<Rightarrow> batch \<Rightarrow> (real \<times> real) list list
     \<Rightarrow> real \<Rightarrow> nat \<Rightarrow> mask option \<Rightarrow> padding_mask option \<Rightarrow> ('g, batch) run" where
  "forward_fusion lib self querys contexts instructs coords patch_size query_length
     self_attention_mask key_padding_mask =
     and_then (lift (gather (pos_embed self)
                       (coords_to_pos (slide_ngrids self) coords patch_size))) (\<lambda>rows.
     and_then (lift (tensor_add contexts rows)) (\<lambda>contexts.
     and_then (forward_layers lib self instructs query_length self_attention_mask
                 key_padding_mask [0..<num_layers self] (contexts, querys))
       (\<lambda>(contexts, querys). ret (cast_bfloat16 lib querys))))"

text \<open>
  \<open>LongNetViT.forward\<close>. It returns what the call returns or raises, the module after
  the call and the generator after the call. The body assigns to no attribute of
  \<open>self\<close>, so the module after the call is \<open>self\<close>.
\<close>

definition forward ::
  "('w, 'g) library \<Rightarrow> 'w LongNetViT \<Rightarrow> batch \<Rightarrow> batch \<Rightarrow> batch \<Rightarrow> (real \<times> real) list list
     \<Rightarrow> real \<Rightarrow> mask option \<Rightarrow> padding_mask option \<Rightarrow> 'g
     \<Rightarrow> (error + batch) \<times> 'w LongNetViT \<times> 'g" where
  "forward lib self querys contexts instructs coords patch_size self_attention_mask
     key_padding_mask g =
     (let query_length = dim1 querys;
          run =
            and_then (lift (extend_self_attention_mask querys self_attention_mask))
              (\<lambda>self_attention_mask.
                 forward_fusion lib self querys contexts instructs coords patch_size
                   query_length self_attention_mask key_padding_mask)
      in case run g of (r, g') \<Rightarrow> (r, self, g'))"

text \<open>
  A call of \<open>forward\<close> with its arguments, and a sequence of calls on one module, each
  on the module and the generator the call before left.
\<close>

record forward_args =
  call_querys :: batch
  call_contexts :: batch
  call_instructs :: batch
  call_coords :: "(real \<times> real) list list"
  call_patch_size :: real
  call_self_attention_mask :: "mask option"
  call_key_padding_mask :: "padding_mask option"

definition forward_call ::
  "('w, 'g) library \<Rightarrow> 'w LongNetViT \<Rightarrow> forward_args \<Rightarrow> 'g
     \<Rightarrow> (error + batch) \<times> 'w LongNetViT \<times> 'g" where
  "forward_call lib self a g =
     forward lib self (call_querys a) (call_contexts a) (call_instructs a) (call_coords a)
       (call_patch_size a) (call_self_attention_mask a) (call_key_padding_mask a) g"

fun forward_calls ::
  "('w, 'g) library \<Rightarrow> forward_args list \<Rightarrow> 'w LongNetViT \<Rightarrow> 'g
     \<Rightarrow> (error + batch) list \<times> 'w LongNetViT \<times> 'g" where
  "forward_calls lib [] self g = ([], self, g)"
| "forward_calls lib (a # as) self g =
     (case forward_call lib self a g of
        (r, self', g') \<Rightarrow>
          (case forward_calls lib as self' g' of (rs, self'', g'') \<Rightarrow> (r # rs, self'', g'')))"

text \<open>
  The library does not draw from the generator outside training mode: the attention, the
  feed-forward sublayer and the context encoder, called with \<open>training = False\<close>,
  return a result that does not depend on the generator and leave the generator as it is.
\<close>

definition eval_deterministic :: "('w, 'g) library \<Rightarrow> bool" where
  "eval_deterministic lib \<longleftrightarrow>
     (\<forall>m q k v kpm. \<exists>r. \<forall>g. multihead_attention lib m False q k v kpm g = (r, g)) \<and>
     (\<forall>m x. \<exists>r. \<forall>g. mlp lib m False x g = (r, g)) \<and>
     (\<forall>e x kpm. \<exists>r. \<forall>g. longnet lib e False x kpm g = (r, g))"

text \<open>A computation that returns the same for every generator and leaves it as it is.\<close>

definition pure_run :: "('g, 'a) run \<Rightarrow> bool" where
  "pure_run m \<longleftrightarrow> (\<exists>r. \<forall>g. m g = (r, g))"


section \<open>A small library for evaluation\<close>

text \<open>
  A library with the generator a counter, for evaluating the definitions on concrete
  inputs. Its attention adds to each query vector the value vectors of the keys that
  \<open>key_padding_mask\<close> does not mark with \<open>True\<close>, and returns weight 1 for those keys
  and 0 for the marked ones; in training mode the operations that draw random numbers
  advance the counter, and dropout and stochastic depth zero their input. Its layer norm checks the
  width and returns its input, its rounding is the floor, and row \<open>k\<close> of its position
  table holds \<open>k\<close> in every entry.
\<close>

definition toy_attend :: "seq \<Rightarrow> seq \<Rightarrow> bool list \<Rightarrow> seq \<times> seq" where
  "toy_attend queries values marks =
     (map (\<lambda>q. foldr (map2 (+)) (map fst (filter (\<lambda>(v, marked). \<not> marked) (zip values marks))) q)
        queries,
      map (\<lambda>q. map (\<lambda>marked. if marked then 0 else 1) marks) queries)"

definition toy_attention ::
  "unit MultiheadAttention \<Rightarrow> bool \<Rightarrow> batch \<Rightarrow> batch \<Rightarrow> batch \<Rightarrow> padding_mask option
     \<Rightarrow> (nat, batch \<times> batch) run" where
  "toy_attention m train query key value key_padding_mask g =
     (let marks = (case key_padding_mask of
                     None \<Rightarrow> map (map (\<lambda>v. False)) value
                   | Some given \<Rightarrow> given);
          attended = map2 (\<lambda>queries (values, row). toy_attend queries values row)
                       query (zip value marks)
      in (Inr (map fst attended, map snd attended), if train then Suc g else g))"

definition toy :: "(unit, nat) library" where
  "toy =
     \<lparr>multihead_attention = toy_attention,
      layer_norm = (\<lambda>m x. if list_all (list_all (\<lambda>v. length v = ln_normalized_shape m)) x
                          then Inr x else Inl RuntimeError),
      mlp = (\<lambda>m train x g. (Inr x, if train then Suc g else g)),
      dropout_sample = (\<lambda>p x g. (map (map (map (\<lambda>_. 0))) x, Suc g)),
      drop_path_sample = (\<lambda>p x g. (map (map (map (\<lambda>_. 0))) x, Suc g)),
      longnet = (\<lambda>e train x m g. (Inr x, if train then Suc g else g)),
      to_bfloat16 = (\<lambda>r. of_int \<lfloor>r\<rfloor>),
      get_2d_sincos_pos_embed = (\<lambda>embed_dim grid_size.
        map (\<lambda>k. replicate embed_dim (real k)) [0..<grid_size\<^sup>2])\<rparr>"

text \<open>
  \<open>small_model\<close> is the slide encoder on a grid of \<open>2 \<times> 2\<close> cells with vectors of
  width 1 and one layer that the constructor builds from \<open>small_args\<close> with the small
  library (lemma \<open>small_model_init\<close> below), in evaluation mode; \<open>small_block\<close> is a
  Self-Fusion Block with \<open>init_values\<close> 1, for results that are easy to read,
  \<open>small_cross\<close> a Cross-Fusion Block, and \<open>loud_model\<close> the encoder with
  \<open>small_block\<close> as its Self-Fusion Block.
\<close>

definition small_args :: LongNetViT_args where
  "small_args =
     default_args\<lparr>arg_embed_dim := 1, arg_slide_ngrids := 2, arg_num_layers := 1,
                  arg_num_heads := 1, arg_ff_dim := 1\<rparr>"

definition small_model :: "unit LongNetViT" where
  "small_model =
     \<lparr>slide_ngrids = 2,
      pos_embed = [[0], [1], [2], [3]],
      pos_embed_dim = 1,
      num_layers = 1,
      encoder_name = LongNet_layers_dim 12 1 None,
      encoder_wsi =
        [\<lparr>enc_name = LongNet_layers_dim 12 1 None, enc_drop_path_rate = 1 / 10,
          enc_dropout = 1 / 4, enc_segment_length = ''[512, 1024, 2048, 4096, 8192]'',
          enc_weights = ()\<rparr>],
      self_attention = [TransformerBlock_init () 1 1 1 None None None None],
      cross_attention = [CrossAttention_init () 1 1 None],
      training = False\<rparr>"

definition small_block :: "unit TransformerBlock" where
  "small_block = TransformerBlock_init () 1 1 1 (Some 1) None None None"

definition small_cross :: "unit CrossAttention" where
  "small_cross = CrossAttention_init () 1 1 None"

definition loud_model :: "unit LongNetViT" where
  "loud_model = small_model\<lparr>self_attention := [small_block]\<rparr>"

section \<open>The Position Indexer: properties\<close>










section \<open>The Self-Fusion Block: the mask\<close>

lemma small_block_fields:
  "tb_pre_norm small_block = True"
  "tb_attention small_block = \<lparr>mha_embed_dim = 1, mha_num_heads = 1, mha_dropout = 1 / 10, mha_weights = ()\<rparr>"
  "tb_norm1 small_block = \<lparr>ln_normalized_shape = 1, ln_weights = ()\<rparr>"
  "tb_layerscale1 small_block = \<lparr>ls_inplace = False, ls_gamma = [1]\<rparr>"
  "tb_drop_path1 small_block = DropPath (1 / 10)"
  "tb_ffn small_block = \<lparr>mlp_in_features = 1, mlp_hidden_features = 1, mlp_drop = 1 / 10, mlp_weights = ()\<rparr>"
  "tb_norm2 small_block = \<lparr>ln_normalized_shape = 1, ln_weights = ()\<rparr>"
  "tb_layerscale2 small_block = \<lparr>ls_inplace = False, ls_gamma = [1]\<rparr>"
  "tb_drop_path2 small_block = DropPath (1 / 10)"
  by (simp_all add: small_block_def TransformerBlock_init_def LayerScale_init_def Let_def)

lemma toy_fields:
  "multihead_attention toy = toy_attention"
  "layer_norm toy = (\<lambda>m x. if list_all (list_all (\<lambda>v. length v = ln_normalized_shape m)) x
                          then Inr x else Inl RuntimeError)"
  "mlp toy = (\<lambda>m train x g. (Inr x, if train then Suc g else g))"
  "dropout_sample toy = (\<lambda>p x g. (map (map (map (\<lambda>_. 0))) x, Suc g))"
  "drop_path_sample toy = (\<lambda>p x g. (map (map (map (\<lambda>_. 0))) x, Suc g))"
  "longnet toy = (\<lambda>e train x m g. (Inr x, if train then Suc g else g))"
  "to_bfloat16 toy = (\<lambda>r. of_int \<lfloor>r\<rfloor>)"
  by (simp_all add: toy_def)

lemmas block_eval =
  TransformerBlock_sublayers_def small_block_fields toy_fields and_then_def lift_def
  toy_attention_def toy_attend_def LayerScale_forward_def mul_gamma_def drop_path_forward_def
  tensor_add_def shape_def

lemma small_block_first_key:
  "TransformerBlock_sublayers toy small_block False [[[1], [10]]] (Some [[False, True]]) 0
     = (Inr [[[6], [42]]], 0)"
  by (simp add: block_eval)

lemma small_block_second_key:
  "TransformerBlock_sublayers toy small_block False [[[1], [10]]] (Some [[True, False]]) 0
     = (Inr [[[24], [60]]], 0)"
  by (simp add: block_eval)

lemma small_block_no_mask:
  "TransformerBlock_forward toy small_block False [[[1], [2], [100]]] None 0
     = (Inr [[[210], [214], [606]]], 0)"
  by (simp add: TransformerBlock_forward_def attention_mask_eq_0_def block_eval)

lemma small_block_instruction_padded:
  "TransformerBlock_forward toy small_block False [[[1], [2], [100]]] (Some [[1, 1, 0]]) 0
     = (Inr [[[10], [14], [406]]], 0)"
  by (simp add: TransformerBlock_forward_def attention_mask_eq_0_def block_eval)

lemma attention_mask_eq_0_nth:
  "attention_mask_eq_0 (Some m) = Some (map (map (\<lambda>e. e = 0)) m)"
  by (simp add: attention_mask_eq_0_def)

text \<open>
  C4, as the code has it. The mask that \<open>TransformerBlock.forward\<close> takes marks a
  position to attend by a non-zero entry and a padded position by 0 (\<open>LongNetViT.forward\<close>
  extends it by ones for the query positions). Line 72 turns it into the boolean
  \<open>key_padding_mask\<close> of the attention, in which \<open>True\<close> excludes a key: a position is
  excluded from attention exactly when the entry of the caller's mask is 0.
\<close>

theorem attention_mask_zero_excluded:
  "\<exists>kpm. attention_mask_eq_0 (Some m) = Some kpm \<and> map length kpm = map length m \<and>
     (\<forall>n<length m. \<forall>j<length (m ! n). kpm ! n ! j \<longleftrightarrow> m ! n ! j = 0) \<and>
     TransformerBlock_forward lib self train x (Some m) =
       TransformerBlock_sublayers lib self train x (Some kpm)"
proof (intro exI conjI allI impI)
  show "attention_mask_eq_0 (Some m) = Some (map (map (\<lambda>e. e = 0)) m)"
    by (rule attention_mask_eq_0_nth)
  show "map length (map (map (\<lambda>e. e = 0)) m) = map length m"
    by simp
  show "TransformerBlock_forward lib self train x (Some m) =
       TransformerBlock_sublayers lib self train x (Some (map (map (\<lambda>e. e = 0)) m))"
    by (simp add: TransformerBlock_forward_def attention_mask_eq_0_nth)
next
  fix n j
  assume "n < length m" "j < length (m ! n)"
  then show "map (map (\<lambda>e. e = 0)) m ! n ! j \<longleftrightarrow> m ! n ! j = 0"
    by simp
qed

theorem attention_mask_zero_excluded_witness:
  "(0::nat) < length [[1, 0::int]] \<and> (1::nat) < length ([[1, 0::int]] ! 0) \<and>
   attention_mask_eq_0 (Some [[1, 0]]) = Some [[False, True]] \<and>
   TransformerBlock_forward toy small_block False [[[1], [10]]] (Some [[1, 0]]) 0 =
     TransformerBlock_sublayers toy small_block False [[[1], [10]]] (Some [[False, True]]) 0"
proof -
  obtain kpm where k: "attention_mask_eq_0 (Some [[1, 0]]) = Some kpm"
    and f: "TransformerBlock_forward toy small_block False [[[1], [10]]] (Some [[1, 0]]) 0 =
       TransformerBlock_sublayers toy small_block False [[[1], [10]]] (Some kpm) 0"
    using attention_mask_zero_excluded [of "[[1, 0]]" toy small_block False "[[[1], [10]]]"]
    by metis
  from k have "kpm = [[False, True]]" by (simp add: attention_mask_eq_0_def)
  with k f show ?thesis by simp
qed

text \<open>
  C4 as stated fails: with the mask \<open>[[1, 0]]\<close> the key with the non-zero entry is the
  one attended and the key with entry 0 is the one excluded. The small block returns what
  it returns when only the first key is attended, not what it returns when only the
  second is.
\<close>

theorem attention_mask_nonzero_attended:
  "attention_mask_eq_0 (Some [[1, 0]]) = Some [[False, True]] \<and>
   TransformerBlock_forward toy small_block False [[[1], [10]]] (Some [[1, 0]]) 0
     = (Inr [[[6], [42]]], 0) \<and>
   TransformerBlock_sublayers toy small_block False [[[1], [10]]] (Some [[False, True]]) 0
     = (Inr [[[6], [42]]], 0) \<and>
   TransformerBlock_sublayers toy small_block False [[[1], [10]]] (Some [[True, False]]) 0
     = (Inr [[[24], [60]]], 0)"
  by (simp add: TransformerBlock_forward_def attention_mask_eq_0_def small_block_first_key
      small_block_second_key)

section \<open>The mask of the self attention\<close>




lemma forward_unfold:
  "forward lib self querys contexts instructs coords patch_size self_attention_mask
     key_padding_mask g =
   (case extend_self_attention_mask querys self_attention_mask of
      Inl e \<Rightarrow> (Inl e, self, g)
    | Inr extended \<Rightarrow>
        (case forward_fusion lib self querys contexts instructs coords patch_size
                (dim1 querys) extended key_padding_mask g of
           (r, g') \<Rightarrow> (r, self, g')))"
  by (simp add: forward_def and_then_def lift_def Let_def split: sum.splits)




text \<open>
  C10. When the caller gives no instruction mask, lines 245 to 248 build no mask: the
  mask of the self attention stays \<open>None\<close>, it is not an all-valid mask of length
  \<open>Q + I\<close>, and \<open>forward\<close> goes on with \<open>None\<close>. The Self-Fusion Block leaves \<open>None\<close>
  as it is and calls its attention with no \<open>key_padding_mask\<close>, so that no position is
  excluded: on a query of two positions and one instruction, the small block, whose
  attention adds up the values of the keys it attends, returns the result of attending all
  three positions.
\<close>

theorem no_instruction_mask_no_mask:
  "extend_self_attention_mask querys None = Inr None \<and>
   extend_self_attention_mask querys None \<noteq>
     Inr (Some (replicate (length querys) (replicate (dim1 querys + I) 1))) \<and>
   attention_mask_eq_0 None = None \<and>
   TransformerBlock_forward lib block train x None =
     TransformerBlock_sublayers lib block train x None \<and>
   forward lib self querys contexts instructs coords patch_size None key_padding_mask g =
     (case forward_fusion lib self querys contexts instructs coords patch_size
             (dim1 querys) None key_padding_mask g of
        (r, g') \<Rightarrow> (r, self, g')) \<and>
   TransformerBlock_forward toy small_block False [[[1], [2], [100]]] None 0
     = (Inr [[[210], [214], [606]]], 0)"
proof (intro conjI)
  show "TransformerBlock_forward toy small_block False [[[1], [2], [100]]] None 0
     = (Inr [[[210], [214], [606]]], 0)"
    by (rule small_block_no_mask)
qed (simp_all add: forward_unfold extend_self_attention_mask_def attention_mask_eq_0_def
      TransformerBlock_forward_def)

section \<open>The Cross-Fusion Block\<close>

lemma shape_eq_lengths:
  assumes "shape a = shape b"
  shows "length a = length b"
    and "n < length a \<Longrightarrow> length (a ! n) = length (b ! n)"
    and "n < length a \<Longrightarrow> q < length (a ! n) \<Longrightarrow> length (a ! n ! q) = length (b ! n ! q)"
proof -
  from assms have m: "map (map length) a = map (map length) b" by (simp add: shape_def)
  then show l: "length a = length b" by (rule map_eq_imp_length_eq)
  {
    assume n: "n < length a"
    have "map (map length) a ! n = map (map length) b ! n" using m by simp
    then have r: "map length (a ! n) = map length (b ! n)" using n l by simp
    then show "length (a ! n) = length (b ! n)" by (rule map_eq_imp_length_eq)
    assume q: "q < length (a ! n)"
    have "map length (a ! n) ! q = map length (b ! n) ! q" using r by simp
    then show "length (a ! n ! q) = length (b ! n ! q)"
      using q \<open>length (a ! n) = length (b ! n)\<close> by simp
  }
qed

lemma tensor_add_Inr:
  "tensor_add a b = Inr r \<Longrightarrow> shape a = shape b \<and> r = map2 (map2 (map2 (+))) a b"
  by (simp add: tensor_add_def split: if_splits)

lemma tensor_add_shape:
  assumes "tensor_add a b = Inr r"
  shows "shape r = shape a"
proof -
  from assms have s: "shape a = shape b" and r: "r = map2 (map2 (map2 (+))) a b"
    by (simp_all add: tensor_add_Inr)
  have l: "length a = length b" using s by (rule shape_eq_lengths(1))
  show ?thesis
    unfolding shape_def
  proof (rule nth_equalityI)
    show "length (map (map length) r) = length (map (map length) a)"
      using r l by simp
  next
    fix n assume "n < length (map (map length) r)"
    then have n: "n < length a" using r l by simp
    have ln: "length (a ! n) = length (b ! n)" using s n by (rule shape_eq_lengths(2))
    have rn: "r ! n = map2 (map2 (+)) (a ! n) (b ! n)" using r n l by simp
    have "map length (r ! n) = map length (a ! n)"
    proof (rule nth_equalityI)
      show "length (map length (r ! n)) = length (map length (a ! n))" using rn ln by simp
    next
      fix q assume "q < length (map length (r ! n))"
      then have q: "q < length (a ! n)" using rn ln by simp
      have "length (a ! n ! q) = length (b ! n ! q)" using s n q by (rule shape_eq_lengths(3))
      then show "map length (r ! n) ! q = map length (a ! n) ! q"
        using rn q ln by simp
    qed
    then show "map (map length) r ! n = map (map length) a ! n"
      using n r l by simp
  qed
qed

lemma tensor_add_nth:
  assumes "tensor_add a b = Inr r" and n: "n < length a" and q: "q < length (a ! n)"
    and d: "d < length (a ! n ! q)"
  shows "r ! n ! q ! d = a ! n ! q ! d + b ! n ! q ! d"
proof -
  from assms(1) have s: "shape a = shape b" and r: "r = map2 (map2 (map2 (+))) a b"
    by (simp_all add: tensor_add_Inr)
  have l: "length a = length b" using s by (rule shape_eq_lengths(1))
  have ln: "length (a ! n) = length (b ! n)" using s n by (rule shape_eq_lengths(2))
  have lq: "length (a ! n ! q) = length (b ! n ! q)" using s n q by (rule shape_eq_lengths(3))
  show ?thesis using r n q d l ln lq by simp
qed

lemma CrossAttention_forward_unfold:
  "CrossAttention_forward lib self train query key value kpm rw g =
     (case multihead_attention lib (ca_attn self) train query key value kpm g of
        (Inl e, g1) \<Rightarrow> (Inl e, g1)
      | (Inr (attn_output, attn_weights), g1) \<Rightarrow>
          (case Dropout_forward lib (ca_dropout self) train attn_output g1 of
             (Inl e, g2) \<Rightarrow> (Inl e, g2)
           | (Inr dropped, g2) \<Rightarrow>
               (case tensor_add query dropped of
                  Inl e \<Rightarrow> (Inl e, g2)
                | Inr residual \<Rightarrow>
                    (case layer_norm lib (ca_norm self) residual of
                       Inl e \<Rightarrow> (Inl e, g2)
                     | Inr output \<Rightarrow>
                         (Inr (if rw then OutputWeights output attn_weights
                               else Output output), g2)))))"
  by (simp add: CrossAttention_forward_def and_then_def lift_def ret_def
      split: prod.splits sum.splits)

lemma Dropout_forward_eval: "Dropout_forward lib p False x g = (Inr x, g)"
  by (simp add: Dropout_forward_def)

lemma Dropout_forward_Inr:
  "Dropout_forward lib p train x g = (Inr y, g') \<Longrightarrow> \<not> train \<Longrightarrow> y = x"
  by (simp add: Dropout_forward_def)

lemma CrossAttention_forward_weights_same:
  "map_sum id primary_output (fst (CrossAttention_forward lib self train query key value kpm True g))
     = map_sum id primary_output
         (fst (CrossAttention_forward lib self train query key value kpm False g)) \<and>
   snd (CrossAttention_forward lib self train query key value kpm True g)
     = snd (CrossAttention_forward lib self train query key value kpm False g)"
  by (simp add: CrossAttention_forward_unfold split: prod.splits sum.splits)

text \<open>
  C7. When \<open>CrossAttention.forward\<close> returns, its output is the layer norm of
  \<open>query + dropout(attn_output)\<close>: the attention is called on the query, the keys and the
  values, dropout is applied to its output (and is the identity outside training mode),
  the result is added entry by entry to the query the block was called with, with no gate
  and no scale, and the layer norm of the sum is the output. With \<open>return_weights\<close> the
  block returns this output together with the attention weights; the output, an error
  raised and the state of the generator are the same with and without
  \<open>return_weights\<close>.
\<close>

theorem CrossAttention_forward_residual_norm:
  "(CrossAttention_forward lib self train query key value kpm rw g = (Inr r, g') \<longrightarrow>
      (\<exists>attn_output attn_weights g1 dropped residual.
         multihead_attention lib (ca_attn self) train query key value kpm g
           = (Inr (attn_output, attn_weights), g1) \<and>
         Dropout_forward lib (ca_dropout self) train attn_output g1 = (Inr dropped, g') \<and>
         (\<not> train \<longrightarrow> dropped = attn_output) \<and>
         tensor_add query dropped = Inr residual \<and>
         shape residual = shape query \<and>
         (\<forall>n<length query. \<forall>q<length (query ! n). \<forall>d<length (query ! n ! q).
            residual ! n ! q ! d = query ! n ! q ! d + dropped ! n ! q ! d) \<and>
         layer_norm lib (ca_norm self) residual = Inr (primary_output r) \<and>
         r = (if rw then OutputWeights (primary_output r) attn_weights
              else Output (primary_output r)))) \<and>
   map_sum id primary_output (fst (CrossAttention_forward lib self train query key value kpm True g))
     = map_sum id primary_output
         (fst (CrossAttention_forward lib self train query key value kpm False g)) \<and>
   snd (CrossAttention_forward lib self train query key value kpm True g)
     = snd (CrossAttention_forward lib self train query key value kpm False g)"
proof (intro conjI impI)
  assume run: "CrossAttention_forward lib self train query key value kpm rw g = (Inr r, g')"
  then obtain attn_output attn_weights g1 dropped residual normed where
    a: "multihead_attention lib (ca_attn self) train query key value kpm g
          = (Inr (attn_output, attn_weights), g1)"
    and d: "Dropout_forward lib (ca_dropout self) train attn_output g1 = (Inr dropped, g')"
    and t: "tensor_add query dropped = Inr residual"
    and n: "layer_norm lib (ca_norm self) residual = Inr normed"
    and r: "r = (if rw then OutputWeights normed attn_weights else Output normed)"
    by (auto simp: CrossAttention_forward_unfold split: prod.splits sum.splits)
  have o: "primary_output r = normed" using r by simp
  have e: "\<not> train \<longrightarrow> dropped = attn_output"
    using d by (auto dest: Dropout_forward_Inr)
  have s: "shape residual = shape query" using t by (rule tensor_add_shape)
  have p: "\<forall>n<length query. \<forall>q<length (query ! n). \<forall>d<length (query ! n ! q).
      residual ! n ! q ! d = query ! n ! q ! d + dropped ! n ! q ! d"
    using t by (auto intro: tensor_add_nth)
  show "\<exists>attn_output attn_weights g1 dropped residual.
         multihead_attention lib (ca_attn self) train query key value kpm g
           = (Inr (attn_output, attn_weights), g1) \<and>
         Dropout_forward lib (ca_dropout self) train attn_output g1 = (Inr dropped, g') \<and>
         (\<not> train \<longrightarrow> dropped = attn_output) \<and>
         tensor_add query dropped = Inr residual \<and>
         shape residual = shape query \<and>
         (\<forall>n<length query. \<forall>q<length (query ! n). \<forall>d<length (query ! n ! q).
            residual ! n ! q ! d = query ! n ! q ! d + dropped ! n ! q ! d) \<and>
         layer_norm lib (ca_norm self) residual = Inr (primary_output r) \<and>
         r = (if rw then OutputWeights (primary_output r) attn_weights
              else Output (primary_output r))"
  proof (intro exI conjI)
    show "multihead_attention lib (ca_attn self) train query key value kpm g
           = (Inr (attn_output, attn_weights), g1)" by (rule a)
    show "Dropout_forward lib (ca_dropout self) train attn_output g1 = (Inr dropped, g')"
      by (rule d)
    show "\<not> train \<longrightarrow> dropped = attn_output" by (rule e)
    show "tensor_add query dropped = Inr residual" by (rule t)
    show "shape residual = shape query" by (rule s)
    show "\<forall>n<length query. \<forall>q<length (query ! n). \<forall>d<length (query ! n ! q).
            residual ! n ! q ! d = query ! n ! q ! d + dropped ! n ! q ! d" by (rule p)
    show "layer_norm lib (ca_norm self) residual = Inr (primary_output r)"
      using n o by simp
    show "r = (if rw then OutputWeights (primary_output r) attn_weights
              else Output (primary_output r))"
      using r o by simp
  qed
qed (simp_all add: CrossAttention_forward_weights_same)


lemma small_cross_fields:
  "ca_attn small_cross = \<lparr>mha_embed_dim = 1, mha_num_heads = 1, mha_dropout = 1 / 10, mha_weights = ()\<rparr>"
  "ca_norm small_cross = \<lparr>ln_normalized_shape = 1, ln_weights = ()\<rparr>"
  "ca_dropout small_cross = 1 / 10"
  by (simp_all add: small_cross_def CrossAttention_init_def Let_def)

lemmas cross_eval =
  CrossAttention_forward_unfold small_cross_fields toy_fields toy_attention_def toy_attend_def
  Dropout_forward_def tensor_add_def shape_def

lemma small_cross_with_weights:
  "CrossAttention_forward toy small_cross False [[[1], [2]]] [[[10], [20]]] [[[10], [20]]]
     (Some [[False, True]]) True 0
   = (Inr (OutputWeights [[[12], [14]]] [[[1, 0], [1, 0]]]), 0)"
  by (simp add: cross_eval)

lemma small_cross_without_weights:
  "CrossAttention_forward toy small_cross False [[[1], [2]]] [[[10], [20]]] [[[10], [20]]]
     (Some [[False, True]]) False 0
   = (Inr (Output [[[12], [14]]]), 0)"
  by (simp add: cross_eval)

theorem CrossAttention_forward_residual_norm_witness:
  "CrossAttention_forward toy small_cross False [[[1], [2]]] [[[10], [20]]] [[[10], [20]]]
     (Some [[False, True]]) True 0
   = (Inr (OutputWeights [[[12], [14]]] [[[1, 0], [1, 0]]]), 0) \<and>
   multihead_attention toy (ca_attn small_cross) False [[[1], [2]]] [[[10], [20]]] [[[10], [20]]]
     (Some [[False, True]]) 0
   = (Inr ([[[11], [12]]], [[[1, 0], [1, 0]]]), 0) \<and>
   tensor_add [[[1], [2]]] [[[11], [12]]] = Inr [[[12], [14]]] \<and>
   layer_norm toy (ca_norm small_cross) [[[12], [14]]] = Inr [[[12], [14]]] \<and>
   CrossAttention_forward toy small_cross False [[[1], [2]]] [[[10], [20]]] [[[10], [20]]]
     (Some [[False, True]]) False 0
   = (Inr (Output [[[12], [14]]]), 0)"
  using CrossAttention_forward_residual_norm
    [of toy small_cross False "[[[1], [2]]]" "[[[10], [20]]]" "[[[10], [20]]]"
       "Some [[False, True]]" True 0 "OutputWeights [[[12], [14]]] [[[1, 0], [1, 0]]]" 0]
    small_cross_with_weights small_cross_without_weights
  by (simp add: small_cross_fields toy_fields toy_attention_def toy_attend_def tensor_add_def
      shape_def)

section \<open>Construction: the hyperparameters of the blocks\<close>

lemma initialize_vit_weights_Inr:
  assumes "initialize_vit_weights lib s = Inr self"
  shows "self = s\<lparr>pos_embed := get_2d_sincos_pos_embed lib (pos_embed_dim s) (slide_ngrids s)\<rparr>"
    and "map length (get_2d_sincos_pos_embed lib (pos_embed_dim s) (slide_ngrids s))
           = map length (pos_embed s)"
  using assms
  by (simp_all add: initialize_vit_weights_def copy_into_def Let_def split: sum.splits if_splits)

lemma LongNetViT_init_Inr:
  assumes "LongNetViT_init lib w args = Inr self"
  shows "slide_ngrids self = arg_slide_ngrids args"
    and "pos_embed self =
           get_2d_sincos_pos_embed lib (arg_embed_dim args) (arg_slide_ngrids args)"
    and "map length (pos_embed self) =
           replicate ((arg_slide_ngrids args)\<^sup>2) (arg_embed_dim args)"
    and "num_layers self = arg_num_layers args"
    and "encoder_wsi self =
           map (\<lambda>i. \<lparr>enc_name = encoder_name self,
                      enc_drop_path_rate = arg_drop_path_rate args,
                      enc_dropout = arg_dropout args,
                      enc_segment_length = ''[512, 1024, 2048, 4096, 8192]'',
                      enc_weights = w i\<rparr>) [0..<arg_num_layers args]"
    and "self_attention self =
           map (\<lambda>i. TransformerBlock_init (w i) (arg_embed_dim args) (arg_num_heads args)
                      (arg_ff_dim args) None None None None) [0..<arg_num_layers args]"
    and "cross_attention self =
           map (\<lambda>i. CrossAttention_init (w i) (arg_embed_dim args) (arg_num_heads args) None)
             [0..<arg_num_layers args]"
    and "training self"
proof -
  note i = initialize_vit_weights_Inr [OF assms [unfolded LongNetViT_init_def Let_def]]
  show "slide_ngrids self = arg_slide_ngrids args" by (subst i(1)) simp
  show "pos_embed self =
           get_2d_sincos_pos_embed lib (arg_embed_dim args) (arg_slide_ngrids args)"
    by (subst i(1)) simp
  then show "map length (pos_embed self) =
           replicate ((arg_slide_ngrids args)\<^sup>2) (arg_embed_dim args)"
    using i(2) by simp
  show "num_layers self = arg_num_layers args" by (subst i(1)) simp
  show "encoder_wsi self =
           map (\<lambda>i. \<lparr>enc_name = encoder_name self,
                      enc_drop_path_rate = arg_drop_path_rate args,
                      enc_dropout = arg_dropout args,
                      enc_segment_length = ''[512, 1024, 2048, 4096, 8192]'',
                      enc_weights = w i\<rparr>) [0..<arg_num_layers args]"
    by (subst (1 2) i(1)) simp
  show "self_attention self =
           map (\<lambda>i. TransformerBlock_init (w i) (arg_embed_dim args) (arg_num_heads args)
                      (arg_ff_dim args) None None None None) [0..<arg_num_layers args]"
    by (subst i(1)) simp
  show "cross_attention self =
           map (\<lambda>i. CrossAttention_init (w i) (arg_embed_dim args) (arg_num_heads args) None)
             [0..<arg_num_layers args]"
    by (subst i(1)) simp
  show "training self" by (subst i(1)) simp
qed

lemma TransformerBlock_init_fields:
  "mha_num_heads (tb_attention (TransformerBlock_init w' d h f iv dr dp pn)) = h"
  "mlp_hidden_features (tb_ffn (TransformerBlock_init w' d h f iv dr dp pn)) = f"
  by (simp_all add: TransformerBlock_init_def Let_def)

lemma CrossAttention_init_fields:
  "mha_num_heads (ca_attn (CrossAttention_init w' d h dr)) = h"
  by (simp add: CrossAttention_init_def Let_def)

text \<open>
  C6, as the code has it. The constructor builds \<open>num_layers\<close> context encoders,
  Self-Fusion Blocks and Cross-Fusion Blocks. The configured \<open>num_heads\<close> is the head
  count of the attention of every Self-Fusion and every Cross-Fusion Block, and the
  configured \<open>ff_dim\<close> is the hidden width of the feed-forward sublayer of every
  Self-Fusion Block (a Cross-Fusion Block has no feed-forward sublayer). The configured
  \<open>dropout\<close> and \<open>drop_path_rate\<close> are what every context encoder is built with; the
  constructor does not pass them to the fusion blocks.
\<close>

theorem LongNetViT_init_hyperparameters:
  assumes "LongNetViT_init lib w args = Inr self"
  shows "length (encoder_wsi self) = arg_num_layers args \<and>
     length (self_attention self) = arg_num_layers args \<and>
     length (cross_attention self) = arg_num_layers args \<and>
     (\<forall>b\<in>set (self_attention self).
        mha_num_heads (tb_attention b) = arg_num_heads args \<and>
        mlp_hidden_features (tb_ffn b) = arg_ff_dim args) \<and>
     (\<forall>c\<in>set (cross_attention self). mha_num_heads (ca_attn c) = arg_num_heads args) \<and>
     (\<forall>e\<in>set (encoder_wsi self).
        enc_dropout e = arg_dropout args \<and> enc_drop_path_rate e = arg_drop_path_rate args)"
proof (intro conjI ballI)
  note i = LongNetViT_init_Inr [OF assms]
  show "length (encoder_wsi self) = arg_num_layers args" by (subst i(5)) simp
  show "length (self_attention self) = arg_num_layers args" by (subst i(6)) simp
  show "length (cross_attention self) = arg_num_layers args" by (subst i(7)) simp
  fix b assume "b \<in> set (self_attention self)"
  then obtain j where b: "b = TransformerBlock_init (w j) (arg_embed_dim args)
      (arg_num_heads args) (arg_ff_dim args) None None None None"
    unfolding i(6) by auto
  show "mha_num_heads (tb_attention b) = arg_num_heads args"
    unfolding b by (rule TransformerBlock_init_fields)
  show "mlp_hidden_features (tb_ffn b) = arg_ff_dim args"
    unfolding b by (rule TransformerBlock_init_fields)
next
  note i = LongNetViT_init_Inr [OF assms]
  fix c assume "c \<in> set (cross_attention self)"
  then obtain j where c: "c = CrossAttention_init (w j) (arg_embed_dim args)
      (arg_num_heads args) None"
    unfolding i(7) by auto
  show "mha_num_heads (ca_attn c) = arg_num_heads args"
    unfolding c by (rule CrossAttention_init_fields)
next
  note i = LongNetViT_init_Inr [OF assms]
  fix e assume "e \<in> set (encoder_wsi self)"
  then obtain j where e: "e = \<lparr>enc_name = encoder_name self,
      enc_drop_path_rate = arg_drop_path_rate args, enc_dropout = arg_dropout args,
      enc_segment_length = ''[512, 1024, 2048, 4096, 8192]'', enc_weights = w j\<rparr>"
    by (subst (asm) i(5)) auto
  show "enc_dropout e = arg_dropout args" unfolding e by simp
  show "enc_drop_path_rate e = arg_drop_path_rate args" unfolding e by simp
qed

lemma small_args_fields:
  "arg_embed_dim small_args = 1" "arg_slide_ngrids small_args = 2"
  "arg_num_layers small_args = 1" "arg_num_heads small_args = 1" "arg_ff_dim small_args = 1"
  "arg_depth small_args = 12" "arg_dropout small_args = 1 / 4"
  "arg_drop_path_rate small_args = 1 / 10" "arg_mlp_ratio small_args = None"
  by (simp_all add: small_args_def default_args_def)

lemma toy_table: "get_2d_sincos_pos_embed toy (Suc 0) 2 = [[0], [1], [2], [3]]"
  by (simp add: toy_def power2_eq_square eval_nat_numeral)

lemma replicate_4: "replicate 4 x = [x, x, x, x]"
  by (simp add: eval_nat_numeral)

lemma small_model_init:
  "LongNetViT_init toy (\<lambda>i. ()) small_args = Inr (small_model\<lparr>training := True\<rparr>)"
  by (simp add: LongNetViT_init_def initialize_vit_weights_def copy_into_def small_args_fields
      toy_table small_model_def power2_eq_square Let_def replicate_4)

lemma small_model_fields:
  "slide_ngrids small_model = 2"
  "pos_embed small_model = [[0], [1], [2], [3]]"
  "num_layers small_model = 1"
  "encoder_wsi small_model =
     [\<lparr>enc_name = LongNet_layers_dim 12 1 None, enc_drop_path_rate = 1 / 10,
       enc_dropout = 1 / 4, enc_segment_length = ''[512, 1024, 2048, 4096, 8192]'',
       enc_weights = ()\<rparr>]"
  "self_attention small_model = [TransformerBlock_init () 1 1 1 None None None None]"
  "cross_attention small_model = [CrossAttention_init () 1 1 None]"
  "training small_model = False"
  by (simp_all add: small_model_def)

theorem LongNetViT_init_hyperparameters_witness:
  "LongNetViT_init toy (\<lambda>i. ()) small_args = Inr (small_model\<lparr>training := True\<rparr>) \<and>
   map (\<lambda>b. mha_num_heads (tb_attention b)) (self_attention small_model)
     = [arg_num_heads small_args] \<and>
   map (\<lambda>b. mlp_hidden_features (tb_ffn b)) (self_attention small_model)
     = [arg_ff_dim small_args] \<and>
   map (\<lambda>c. mha_num_heads (ca_attn c)) (cross_attention small_model)
     = [arg_num_heads small_args] \<and>
   map enc_dropout (encoder_wsi small_model) = [arg_dropout small_args] \<and>
   map enc_drop_path_rate (encoder_wsi small_model) = [arg_drop_path_rate small_args]"
proof -
  note h = LongNetViT_init_hyperparameters [OF small_model_init]
  from h have "\<forall>b\<in>set (self_attention small_model).
        mha_num_heads (tb_attention b) = arg_num_heads small_args \<and>
        mlp_hidden_features (tb_ffn b) = arg_ff_dim small_args"
    and "\<forall>c\<in>set (cross_attention small_model).
        mha_num_heads (ca_attn c) = arg_num_heads small_args"
    and "\<forall>e\<in>set (encoder_wsi small_model).
        enc_dropout e = arg_dropout small_args \<and>
        enc_drop_path_rate e = arg_drop_path_rate small_args"
    by simp_all
  then show ?thesis
    by (simp add: small_model_init small_model_fields)
qed

lemma other_model_init:
  "LongNetViT_init toy (\<lambda>i. ()) (small_args\<lparr>arg_dropout := 1 / 2, arg_drop_path_rate := 0\<rparr>)
   = Inr (small_model
       \<lparr>encoder_wsi := [\<lparr>enc_name = LongNet_layers_dim 12 1 None, enc_drop_path_rate = 0,
          enc_dropout = 1 / 2, enc_segment_length = ''[512, 1024, 2048, 4096, 8192]'',
          enc_weights = ()\<rparr>],
        training := True\<rparr>)"
  by (simp add: LongNetViT_init_def initialize_vit_weights_def copy_into_def small_args_fields
      toy_table small_model_def power2_eq_square Let_def replicate_4)

lemma default_block_dropout:
  "mha_dropout (tb_attention (TransformerBlock_init w' d h f None None None None)) = 1 / 10"
  "mlp_drop (tb_ffn (TransformerBlock_init w' d h f None None None None)) = 1 / 10"
  "tb_drop_path1 (TransformerBlock_init w' d h f None None None None) = DropPath (1 / 10)"
  "tb_drop_path2 (TransformerBlock_init w' d h f None None None None) = DropPath (1 / 10)"
  "mha_dropout (ca_attn (CrossAttention_init w' d h None)) = 1 / 10"
  "ca_dropout (CrossAttention_init w' d h None) = 1 / 10"
  by (simp_all add: TransformerBlock_init_def CrossAttention_init_def Let_def)

text \<open>
  C6 as stated fails: built with \<open>dropout = 0.5\<close> and \<open>drop_path_rate = 0\<close>, the
  Self-Fusion Block has dropout 0.1 in its attention and its feed-forward sublayer and
  stochastic depth of rate 0.1, and the Cross-Fusion Block has dropout 0.1, the defaults
  of \<open>TransformerBlock.__init__\<close> and \<open>CrossAttention.__init__\<close>.
\<close>

theorem LongNetViT_init_block_dropout_default:
  "arg_dropout (small_args\<lparr>arg_dropout := 1 / 2, arg_drop_path_rate := 0\<rparr>) = 1 / 2 \<and>
   arg_drop_path_rate (small_args\<lparr>arg_dropout := 1 / 2, arg_drop_path_rate := 0\<rparr>) = 0 \<and>
   map_sum id
     (\<lambda>self. (map (\<lambda>b. (mha_dropout (tb_attention b), mlp_drop (tb_ffn b),
                          tb_drop_path1 b, tb_drop_path2 b)) (self_attention self),
               map (\<lambda>c. (mha_dropout (ca_attn c), ca_dropout c)) (cross_attention self)))
     (LongNetViT_init toy (\<lambda>i. ()) (small_args\<lparr>arg_dropout := 1 / 2, arg_drop_path_rate := 0\<rparr>))
   = Inr ([(1 / 10, 1 / 10, DropPath (1 / 10), DropPath (1 / 10))], [(1 / 10, 1 / 10)])"
  by (simp add: other_model_init small_model_fields default_block_dropout)

section \<open>The gather of the position rows\<close>









lemma loud_model_fields:
  "slide_ngrids loud_model = 2"
  "pos_embed loud_model = [[0], [1], [2], [3]]"
  "num_layers loud_model = 1"
  "encoder_wsi loud_model =
     [\<lparr>enc_name = LongNet_layers_dim 12 1 None, enc_drop_path_rate = 1 / 10,
       enc_dropout = 1 / 4, enc_segment_length = ''[512, 1024, 2048, 4096, 8192]'',
       enc_weights = ()\<rparr>]"
  "self_attention loud_model = [small_block]"
  "cross_attention loud_model = [small_cross]"
  "training loud_model = False"
  by (simp_all add: loud_model_def small_model_def small_cross_def)

lemma small_cross_one_tile:
  "CrossAttention_forward toy small_cross False [[[210], [214]]] [[[12]]] [[[12]]] None False 0
     = (Inr (Output [[[432], [440]]]), 0)"
  by (simp add: cross_eval)

lemma loud_layer:
  "forward_layer toy loud_model [[[100]]] 2 None None 0 ([[[12]]], [[[1], [2]]]) 0
     = (Inr ([[[12]]], [[[432], [440]]]), 0)"
  by (simp add: forward_layer_def loud_model_fields module_at_def and_then_def lift_def ret_def
      toy_fields cat_dim1_def small_block_no_mask small_cross_one_tile)

lemma loud_fusion:
  "forward_fusion toy loud_model [[[1], [2]]] [[[10]]] [[[100]]] [[(0, 512)]] 256 2 None None 0
     = (Inr [[[432], [440]]], 0)"
  by (simp add: forward_fusion_def loud_model_fields gather_def index_row_def coords_to_pos_def
      tensor_add_def shape_def and_then_def lift_def ret_def loud_layer cast_bfloat16_def
      toy_fields)





lemma dim1_two_queries: "dim1 [[[1], [2::real]]] = 2"
  by (simp add: dim1_def)


section \<open>Evaluation mode: no use of the generator\<close>

lemma pure_run_lift: "pure_run (lift r)"
  by (auto simp: pure_run_def lift_def)

lemma pure_run_ret: "pure_run (ret x)"
  by (auto simp: pure_run_def ret_def)

lemma pure_run_and_then:
  assumes "pure_run m" and "\<And>x. pure_run (f x)"
  shows "pure_run (and_then m f)"
proof -
  from assms(1) obtain r where m: "\<And>g. m g = (r, g)" by (auto simp: pure_run_def)
  show ?thesis
  proof (cases r)
    case (Inl e)
    then have "\<forall>g. and_then m f g = (Inl e, g)" by (simp add: and_then_def m)
    then show ?thesis unfolding pure_run_def by blast
  next
    case (Inr x)
    from assms(2) [of x] obtain r' where "\<And>g. f x g = (r', g)" by (auto simp: pure_run_def)
    then have "\<forall>g. and_then m f g = (r', g)" by (simp add: and_then_def m Inr)
    then show ?thesis unfolding pure_run_def by blast
  qed
qed

lemma pure_run_case_prod: "(\<And>a b. pure_run (f a b)) \<Longrightarrow> pure_run (case x of (a, b) \<Rightarrow> f a b)"
  by (cases x) simp

lemma pure_run_if: "pure_run a \<Longrightarrow> pure_run b \<Longrightarrow> pure_run (if c then a else b)"
  by simp

lemma pure_run_case_result:
  "(\<And>out. pure_run (f out)) \<Longrightarrow> (\<And>out w. pure_run (h out w)) \<Longrightarrow>
   pure_run (case r of Output out \<Rightarrow> f out | OutputWeights out w \<Rightarrow> h out w)"
  by (cases r) simp_all

lemma pure_run_Dropout: "pure_run (Dropout_forward lib p False x)"
  by (auto simp: pure_run_def Dropout_forward_def)

lemma pure_run_drop_path: "pure_run (drop_path_forward lib dp False x)"
  by (cases dp) (auto simp: pure_run_def drop_path_forward_def)

lemma pure_run_library:
  assumes "eval_deterministic lib"
  shows "pure_run (multihead_attention lib m False q k v kpm)"
    and "pure_run (mlp lib f False x)"
    and "pure_run (longnet lib e False x kpm)"
  using assms unfolding eval_deterministic_def pure_run_def by blast+

lemmas pure_run_intros =
  pure_run_and_then pure_run_lift pure_run_ret pure_run_case_prod pure_run_if
  pure_run_case_result pure_run_Dropout pure_run_drop_path pure_run_library

lemma pure_run_CrossAttention:
  "eval_deterministic lib \<Longrightarrow>
   pure_run (CrossAttention_forward lib self False query key value kpm rw)"
  unfolding CrossAttention_forward_def by (intro pure_run_intros)

lemma pure_run_TransformerBlock:
  "eval_deterministic lib \<Longrightarrow> pure_run (TransformerBlock_forward lib self False x m)"
  unfolding TransformerBlock_forward_def TransformerBlock_sublayers_def
  by (intro pure_run_intros)

lemma pure_run_forward_layer:
  assumes d: "eval_deterministic lib" and t: "\<not> training self"
  shows "pure_run (forward_layer lib self instructs ql m kpm i s)"
proof -
  have f: "training self = False" using t by simp
  show ?thesis
    unfolding forward_layer_def f
    by (intro pure_run_and_then pure_run_lift pure_run_ret pure_run_case_prod
          pure_run_case_result pure_run_library [OF d] pure_run_CrossAttention [OF d]
          pure_run_TransformerBlock [OF d])
qed

lemma forward_layers_Nil: "forward_layers lib self instructs ql m kpm [] s = ret s"
  by (rule ext) (simp add: ret_def)

lemma forward_layers_Cons:
  "forward_layers lib self instructs ql m kpm (i # is) s =
     and_then (forward_layer lib self instructs ql m kpm i s)
       (forward_layers lib self instructs ql m kpm is)"
  by (rule ext) (simp add: and_then_def split: prod.splits sum.splits)

lemma pure_run_forward_layers:
  assumes "eval_deterministic lib" and "\<not> training self"
  shows "pure_run (forward_layers lib self instructs ql m kpm is s)"
proof (induction "is" arbitrary: s)
  case Nil
  show ?case unfolding forward_layers_Nil by (rule pure_run_ret)
next
  case (Cons i "is")
  show ?case
    unfolding forward_layers_Cons
    by (intro pure_run_and_then pure_run_forward_layer assms Cons.IH)
qed

lemma pure_run_forward_fusion:
  assumes "eval_deterministic lib" and "\<not> training self"
  shows "pure_run (forward_fusion lib self querys contexts instructs coords patch_size ql m kpm)"
  unfolding forward_fusion_def
  by (intro pure_run_and_then pure_run_lift pure_run_ret pure_run_case_prod
        pure_run_forward_layers assms)

lemma forward_eval_deterministic:
  assumes "eval_deterministic lib" and "\<not> training self"
  shows "\<exists>r. \<forall>g. forward lib self querys contexts instructs coords patch_size m kpm g
           = (r, self, g)"
proof -
  have "pure_run (and_then (lift (extend_self_attention_mask querys m))
      (\<lambda>extended. forward_fusion lib self querys contexts instructs coords patch_size
         (dim1 querys) extended kpm))"
    by (intro pure_run_and_then pure_run_lift pure_run_forward_fusion assms)
  then obtain r where "\<And>g. and_then (lift (extend_self_attention_mask querys m))
      (\<lambda>extended. forward_fusion lib self querys contexts instructs coords patch_size
         (dim1 querys) extended kpm) g = (r, g)"
    by (auto simp: pure_run_def)
  then have "\<forall>g. forward lib self querys contexts instructs coords patch_size m kpm g
           = (r, self, g)"
    by (simp add: forward_def Let_def)
  then show ?thesis by blast
qed

text \<open>
  C9. When the library draws from the generator only in training mode and the module is
  not in training mode, a call of \<open>forward\<close> returns a result that is a function of the
  arguments and of the module alone: it is the same for every state of the generator,
  and the call leaves the module and the generator as they were. Two calls in a row with
  the same arguments therefore return the same result.
\<close>

theorem forward_deterministic:
  assumes "eval_deterministic lib" and "\<not> training self"
  shows "\<exists>r. \<forall>g.
     forward lib self querys contexts instructs coords patch_size m kpm g = (r, self, g) \<and>
     forward_calls lib
       [\<lparr>call_querys = querys, call_contexts = contexts, call_instructs = instructs,
         call_coords = coords, call_patch_size = patch_size, call_self_attention_mask = m,
         call_key_padding_mask = kpm\<rparr>,
        \<lparr>call_querys = querys, call_contexts = contexts, call_instructs = instructs,
         call_coords = coords, call_patch_size = patch_size, call_self_attention_mask = m,
         call_key_padding_mask = kpm\<rparr>] self g
       = ([r, r], self, g)"
proof -
  from forward_eval_deterministic [OF assms] obtain r where
    "\<And>g. forward lib self querys contexts instructs coords patch_size m kpm g = (r, self, g)"
    by blast
  then show ?thesis by (intro exI [of _ r]) (simp add: forward_call_def)
qed

lemma toy_eval_deterministic: "eval_deterministic toy"
  by (simp add: eval_deterministic_def toy_fields toy_attention_def Let_def)

lemma loud_forward:
  "forward toy loud_model [[[1], [2]]] [[[10]]] [[[100]]] [[(0, 512)]] 256 None None 0
     = (Inr [[[432], [440]]], loud_model, 0)"
  by (simp add: forward_unfold extend_self_attention_mask_def dim1_two_queries loud_fusion)

theorem forward_deterministic_witness:
  "eval_deterministic toy \<and> \<not> training loud_model \<and>
   forward toy loud_model [[[1], [2]]] [[[10]]] [[[100]]] [[(0, 512)]] 256 None None 0
     = (Inr [[[432], [440]]], loud_model, 0) \<and>
   forward toy loud_model [[[1], [2]]] [[[10]]] [[[100]]] [[(0, 512)]] 256 None None 7
     = (Inr [[[432], [440]]], loud_model, 7)"
proof -
  have t: "\<not> training loud_model" by (simp add: loud_model_fields)
  from forward_deterministic [OF toy_eval_deterministic t] obtain r where
    r: "\<And>g. forward toy loud_model [[[1], [2]]] [[[10]]] [[[100]]] [[(0, 512)]] 256 None None g
          = (r, loud_model, g)"
    by blast
  from r [of 0] loud_forward have "r = Inr [[[432], [440]]]" by simp
  with r [of 7] toy_eval_deterministic t loud_forward show ?thesis by simp
qed

text \<open>
  In training mode the same call draws from the generator: with the small library the
  generator advances by 7 and dropout changes the result.
\<close>

lemma small_block_training:
  "TransformerBlock_forward toy small_block True [[[1], [2], [100]]] None (Suc 0)
     = (Inr [[[1], [2], [100]]], 5)"
  by (simp add: TransformerBlock_forward_def attention_mask_eq_0_def block_eval)

lemma small_cross_training:
  "CrossAttention_forward toy small_cross True [[[1], [2]]] [[[12]]] [[[12]]] None False 5
     = (Inr (Output [[[1], [2]]]), 7)"
  by (simp add: cross_eval)

lemma forward_training_draws:
  "forward toy (loud_model\<lparr>training := True\<rparr>) [[[1], [2]]] [[[10]]] [[[100]]] [[(0, 512)]]
     256 None None 0
     = (Inr [[[1], [2]]], loud_model\<lparr>training := True\<rparr>, 7)"
proof -
  have "forward_layer toy (loud_model\<lparr>training := True\<rparr>) [[[100]]] 2 None None 0
      ([[[12]]], [[[1], [2]]]) 0 = (Inr ([[[12]]], [[[1], [2]]]), 7)"
    by (simp add: forward_layer_def loud_model_fields module_at_def and_then_def lift_def
        ret_def toy_fields cat_dim1_def small_block_training small_cross_training)
  then have "forward_fusion toy (loud_model\<lparr>training := True\<rparr>) [[[1], [2]]] [[[10]]]
      [[[100]]] [[(0, 512)]] 256 2 None None 0 = (Inr [[[1], [2]]], 7)"
    by (simp add: forward_fusion_def loud_model_fields gather_def index_row_def
        coords_to_pos_def tensor_add_def shape_def and_then_def lift_def ret_def
        cast_bfloat16_def toy_fields)
  then show ?thesis
    by (simp add: forward_unfold extend_self_attention_mask_def dim1_two_queries)
qed

section \<open>The position table\<close>







section \<open>The layers of the forward pass\<close>






















end
